theory Spec2Isabelle
  imports
    Main
    "HOL-Library.Char_ord"
    "HOL-Library.List_Lexorder"
    "HOL-Library.Product_Lexorder"
    "HOL-Library.Multiset"
begin

section \<open>The certificate backend: request handlers over two external stores\<close>

text \<open>
  The repository holds two near-identical Express applications, \<^verbatim>\<open>src/app.js\<close>
  (columns \<^verbatim>\<open>name, description, category, link, image\<close>) and
  \<^verbatim>\<open>src/unnamed/part_000\<close> (columns \<^verbatim>\<open>title, provider, date, link, image\<close>,
  plus three listing routes). Every handler is a straight line of at most one call
  \<^verbatim>\<open>supabase.storage.from('images').upload(...)\<close> followed by at most one
  \<^verbatim>\<open>pool.query(...)\<close>, wrapped in \<^verbatim>\<open>try { ... } catch (error) { res.status(500) ... }\<close>.

  The two stores are external. They are modelled as an explicit state (the table
  \<^verbatim>\<open>certificates\<close>, the bucket \<^verbatim>\<open>images\<close>), and the handlers as functions from a
  state to a response and a new state. Whether an external call reports an error is an
  input of the handler (\<open>env\<close>): a theorem that quantifies over \<open>env\<close> holds whatever
  the stores answer. The state also keeps the sequence of external calls made so far, so
  that "is never attempted" and "before" are statements about that sequence.
\<close>

subsection \<open>Requests and responses\<close>

text \<open>
  \<^verbatim>\<open>req.file\<close> as multer's memory storage builds it; the handlers read
  \<^verbatim>\<open>originalname\<close>, \<^verbatim>\<open>buffer\<close> and \<^verbatim>\<open>mimetype\<close> only.
\<close>

record multer_file =
  originalname :: string
  mimetype :: string
  buffer :: "nat list"

text \<open>
  A text field of \<^verbatim>\<open>req.body\<close> is a string, or \<^verbatim>\<open>undefined\<close> (\<open>None\<close>) when
  the request omits it. \<^verbatim>\<open>!name\<close> holds for \<^verbatim>\<open>undefined\<close> and for the empty string.
  As a query parameter \<^verbatim>\<open>undefined\<close> is sent as NULL.
\<close>

definition truthy :: "string option \<Rightarrow> bool" where
  "truthy v = (case v of None \<Rightarrow> False | Some s \<Rightarrow> s \<noteq> [])"

text \<open>What \<^verbatim>\<open>res.status(n).json(...)\<close> sends.\<close>

datatype 'r body =
    Row 'r
  | Rows "'r list"
  | Error string
  | Message string
  | NoBody

record 'r response =
  status :: nat
  json :: "'r body"

definition respond :: "nat \<Rightarrow> 'r body \<Rightarrow> 'r response" where
  "respond n b = \<lparr>status = n, json = b\<rparr>"

text \<open>\<^verbatim>\<open>res.status(200).json(result.rows[0])\<close>: \<^verbatim>\<open>rows[0]\<close> of an empty array is
  \<^verbatim>\<open>undefined\<close>, which serialises to no body.\<close>

definition respond_first :: "'r list \<Rightarrow> 'r response" where
  "respond_first rs = (case rs of [] \<Rightarrow> respond 200 NoBody | r # _ \<Rightarrow> respond 200 (Row r))"

subsection \<open>The stores\<close>

text \<open>
  A row of the table \<^verbatim>\<open>certificates\<close>. The columns \<^verbatim>\<open>id\<close>, \<^verbatim>\<open>image\<close> and
  \<^verbatim>\<open>link\<close> are common to both applications (the suffix keeps them apart from the
  handlers' local variables and from HOL's \<open>id\<close> and \<open>image\<close>); \<open>None\<close> is SQL's NULL.
  The identifier is generated by the store on insert; a request's \<^verbatim>\<open>:id\<close> is taken
  as a value of the column's type (a parameter the store cannot read as an identifier
  makes the statement report an error, which \<open>env\<close> below covers).
\<close>

record row =
  id_col :: nat
  image_col :: "string option"
  link_col :: "string option"

record certificate = row +
  name_col :: "string option"
  description_col :: "string option"
  category_col :: "string option"

record certificate_b = row +
  title_col :: "string option"
  provider_col :: "string option"
  date_col :: "string option"

text \<open>The statements the handlers send, by their SQL text.\<close>

datatype sql =
    INSERT_RETURNING
  | SELECT_ALL
  | SELECT_WHERE_ID nat
  | UPDATE_WHERE_ID_RETURNING nat
  | DELETE_WHERE_ID_RETURNING nat
  | SELECT_WHERE_PROVIDER "string"
  | SELECT_ORDER_BY_DATE_ASC
  | SELECT_ORDER_BY_DATE_DESC

datatype call =
    Upload string "nat list" string
  | Query sql

text \<open>
  What one request meets outside: \<open>upload_error\<close> is the \<^verbatim>\<open>error\<close> member of the
  upload's answer (its message), \<open>query_error\<close> the message of the error
  \<^verbatim>\<open>pool.query\<close> rejects with; \<open>None\<close> when the call succeeds.
\<close>

record env =
  upload_error :: "string option"
  query_error :: "string option"

record 'r world =
  certificates :: "'r list"
  next_id :: nat
  images :: "string \<rightharpoonup> nat list \<times> string"
  calls :: "call list"

text \<open>
  \<^verbatim>\<open>supabase.storage.from('images').upload(path, body, { contentType })\<close>: the call
  is recorded; when it succeeds the bucket holds \<open>body\<close> at \<open>path\<close>, in place of
  what it held there; when it reports an error the bucket is as before. The result is
  the \<^verbatim>\<open>error\<close> member of the answer.
\<close>

definition storage_upload ::
  "env \<Rightarrow> string \<Rightarrow> nat list \<Rightarrow> string \<Rightarrow> 'r world \<Rightarrow> string option \<times> 'r world" where
  "storage_upload e path body contentType w =
     (let w1 = w\<lparr>calls := calls w @ [Upload path body contentType]\<rparr> in
      case upload_error e of
        Some msg \<Rightarrow> (Some msg, w1)
      | None \<Rightarrow> (None, w1\<lparr>images := (images w1)(path \<mapsto> (body, contentType))\<rparr>))"

text \<open>
  \<^verbatim>\<open>pool.query(text, values)\<close>: the call is recorded; it either rejects (\<open>Inl\<close>, the
  table as it was: one statement is atomic) or runs the statement and resolves with
  \<^verbatim>\<open>result.rows\<close>.
\<close>

definition pool_query ::
  "env \<Rightarrow> sql \<Rightarrow> ('r world \<Rightarrow> 'r list \<times> 'r world) \<Rightarrow> 'r world \<Rightarrow> (string + 'r list) \<times> 'r world" where
  "pool_query e q run w =
     (let w1 = w\<lparr>calls := calls w @ [Query q]\<rparr> in
      case query_error e of
        Some msg \<Rightarrow> (Inl msg, w1)
      | None \<Rightarrow> (case run w1 of (rs, w2) \<Rightarrow> (Inr rs, w2)))"

text \<open>\<^verbatim>\<open>INSERT INTO certificates (...) VALUES (...) RETURNING *\<close>: \<open>mk\<close> builds the row
  from the identifier the store assigns.\<close>

definition insert_returning :: "(nat \<Rightarrow> 'r) \<Rightarrow> 'r world \<Rightarrow> 'r list \<times> 'r world" where
  "insert_returning mk w =
     (let r = mk (next_id w) in
      ([r], w\<lparr>certificates := certificates w @ [r], next_id := Suc (next_id w)\<rparr>))"

text \<open>\<^verbatim>\<open>SELECT * FROM certificates\<close>\<close>

definition select_all :: "'r world \<Rightarrow> 'r list \<times> 'r world" where
  "select_all w = (certificates w, w)"

text \<open>\<^verbatim>\<open>SELECT * FROM certificates WHERE id = $1\<close>\<close>

definition select_where_id :: "nat \<Rightarrow> 'a row_scheme world \<Rightarrow> 'a row_scheme list \<times> 'a row_scheme world" where
  "select_where_id i w = (filter (\<lambda>r. id_col r = i) (certificates w), w)"

text \<open>\<^verbatim>\<open>UPDATE certificates SET ... WHERE id = $6 RETURNING *\<close>: \<open>set_clause\<close> is the
  SET list, applied to every row the WHERE clause selects.\<close>

definition update_where_id_returning ::
  "('a row_scheme \<Rightarrow> 'a row_scheme) \<Rightarrow> nat \<Rightarrow> 'a row_scheme world \<Rightarrow> 'a row_scheme list \<times> 'a row_scheme world" where
  "update_where_id_returning set_clause i w =
     (map set_clause (filter (\<lambda>r. id_col r = i) (certificates w)),
      w\<lparr>certificates := map (\<lambda>r. if id_col r = i then set_clause r else r) (certificates w)\<rparr>)"

text \<open>\<^verbatim>\<open>DELETE FROM certificates WHERE id = $1 RETURNING *\<close>\<close>

definition delete_where_id_returning ::
  "nat \<Rightarrow> 'a row_scheme world \<Rightarrow> 'a row_scheme list \<times> 'a row_scheme world" where
  "delete_where_id_returning i w =
     (filter (\<lambda>r. id_col r = i) (certificates w),
      w\<lparr>certificates := filter (\<lambda>r. id_col r \<noteq> i) (certificates w)\<rparr>)"

text \<open>\<^verbatim>\<open>COALESCE($n, image)\<close>\<close>

definition coalesce :: "'a option \<Rightarrow> 'a option \<Rightarrow> 'a option" where
  "coalesce a b = (case a of Some x \<Rightarrow> Some x | None \<Rightarrow> b)"

subsection \<open>The handlers of \<^verbatim>\<open>src/app.js\<close>\<close>

text \<open>\<^verbatim>\<open>app.get('/')\<close>\<close>

definition get_root :: "'r world \<Rightarrow> 'r response \<times> 'r world" where
  "get_root w = (respond 200 (Message ''Selamat Datang Kawan...''), w)"

text \<open>\<^verbatim>\<open>app.post('/certificate', upload.single('image'), ...)\<close>\<close>

definition post_certificate ::
  "string \<Rightarrow> env \<Rightarrow> string option \<Rightarrow> string option \<Rightarrow> string option \<Rightarrow> string option \<Rightarrow>
   multer_file option \<Rightarrow> certificate world \<Rightarrow> certificate response \<times> certificate world" where
  "post_certificate supabaseUrl e name description category link file w =
     (if \<not> truthy name \<or> file = None then
        (respond 400 (Error ''Name and image are required''), w)
      else
        let f = the file in
        case storage_upload e (''public/'' @ originalname f) (buffer f) (mimetype f) w of
          (Some uploadError, w1) \<Rightarrow> (respond 500 (Error uploadError), w1)
        | (None, w1) \<Rightarrow>
            let publicURL =
              supabaseUrl @ ''/storage/v1/object/public/images/public/'' @ originalname f in
            (case pool_query e INSERT_RETURNING
                    (insert_returning (\<lambda>i.
                       \<lparr>id_col = i, image_col = Some publicURL, link_col = link,
                        name_col = name, description_col = description,
                        category_col = category\<rparr>)) w1 of
               (Inl error, w2) \<Rightarrow> (respond 500 (Error error), w2)
             | (Inr rows, w2) \<Rightarrow> (respond_first rows, w2)))"

text \<open>\<^verbatim>\<open>app.get('/certificates')\<close>\<close>

definition get_certificates :: "env \<Rightarrow> 'r world \<Rightarrow> 'r response \<times> 'r world" where
  "get_certificates e w =
     (case pool_query e SELECT_ALL select_all w of
        (Inl error, w1) \<Rightarrow> (respond 500 (Error error), w1)
      | (Inr rows, w1) \<Rightarrow> (respond 200 (Rows rows), w1))"

text \<open>\<^verbatim>\<open>app.get('/certificate/:id')\<close>\<close>

definition get_certificate ::
  "env \<Rightarrow> nat \<Rightarrow> 'a row_scheme world \<Rightarrow> 'a row_scheme response \<times> 'a row_scheme world" where
  "get_certificate e i w =
     (case pool_query e (SELECT_WHERE_ID i) (select_where_id i) w of
        (Inl error, w1) \<Rightarrow> (respond 500 (Error error), w1)
      | (Inr rows, w1) \<Rightarrow>
          if length rows = 0 then (respond 404 (Error ''Certificate not found''), w1)
          else (respond_first rows, w1))"

text \<open>\<^verbatim>\<open>app.put('/certificate/:id', upload.single('image'), ...)\<close>\<close>

definition put_certificate ::
  "string \<Rightarrow> env \<Rightarrow> nat \<Rightarrow> string option \<Rightarrow> string option \<Rightarrow> string option \<Rightarrow> string option \<Rightarrow>
   multer_file option \<Rightarrow> certificate world \<Rightarrow> certificate response \<times> certificate world" where
  "put_certificate supabaseUrl e i name description category link file w =
     (case (case file of
              None \<Rightarrow> (Inr None, w)
            | Some f \<Rightarrow>
                (case storage_upload e (''public/'' @ originalname f) (buffer f) (mimetype f) w of
                   (Some uploadError, w1) \<Rightarrow> (Inl uploadError, w1)
                 | (None, w1) \<Rightarrow>
                     (Inr (Some (supabaseUrl @ ''/storage/v1/object/public/images/public/''
                                   @ originalname f)), w1))) of
        (Inl uploadError, w1) \<Rightarrow> (respond 500 (Error uploadError), w1)
      | (Inr publicURL, w1) \<Rightarrow>
          (case pool_query e (UPDATE_WHERE_ID_RETURNING i)
                  (update_where_id_returning (\<lambda>r.
                     r\<lparr>name_col := name, description_col := description,
                       image_col := coalesce publicURL (image_col r),
                       category_col := category, link_col := link\<rparr>) i) w1 of
             (Inl error, w2) \<Rightarrow> (respond 500 (Error error), w2)
           | (Inr rows, w2) \<Rightarrow>
               if length rows = 0 then (respond 404 (Error ''Certificate not found''), w2)
               else (respond_first rows, w2)))"

text \<open>\<^verbatim>\<open>app.delete('/certificate/:id')\<close>\<close>

definition delete_certificate ::
  "env \<Rightarrow> nat \<Rightarrow> 'a row_scheme world \<Rightarrow> 'a row_scheme response \<times> 'a row_scheme world" where
  "delete_certificate e i w =
     (case pool_query e (DELETE_WHERE_ID_RETURNING i) (delete_where_id_returning i) w of
        (Inl error, w1) \<Rightarrow> (respond 500 (Error error), w1)
      | (Inr rows, w1) \<Rightarrow>
          if length rows = 0 then (respond 404 (Error ''Certificate not found''), w1)
          else (respond_first rows, w1))"

text \<open>One request to \<^verbatim>\<open>src/app.js\<close>, and the route that serves it.\<close>

datatype request =
    GET_root
  | POST_certificate "string option" "string option" "string option" "string option"
      "multer_file option"
  | GET_certificates
  | GET_certificate nat
  | PUT_certificate nat "string option" "string option" "string option" "string option"
      "multer_file option"
  | DELETE_certificate nat

fun app :: "string \<Rightarrow> env \<Rightarrow> request \<Rightarrow> certificate world \<Rightarrow> certificate response \<times> certificate world" where
  "app supabaseUrl e GET_root w = get_root w"
| "app supabaseUrl e (POST_certificate name description category link file) w =
     post_certificate supabaseUrl e name description category link file w"
| "app supabaseUrl e GET_certificates w = get_certificates e w"
| "app supabaseUrl e (GET_certificate i) w = get_certificate e i w"
| "app supabaseUrl e (PUT_certificate i name description category link file) w =
     put_certificate supabaseUrl e i name description category link file w"
| "app supabaseUrl e (DELETE_certificate i) w = delete_certificate e i w"

subsection \<open>The handlers of \<^verbatim>\<open>src/unnamed/part_000\<close>\<close>

text \<open>
  The routes \<^verbatim>\<open>/\<close>, \<^verbatim>\<open>/certificates\<close>, \<^verbatim>\<open>GET /certificate/:id\<close> and
  \<^verbatim>\<open>DELETE /certificate/:id\<close> are the same text as in \<^verbatim>\<open>src/app.js\<close>; the
  definitions above serve both. POST and PUT differ in the columns.
\<close>

definition post_certificate_b ::
  "string \<Rightarrow> env \<Rightarrow> string option \<Rightarrow> string option \<Rightarrow> string option \<Rightarrow> string option \<Rightarrow>
   multer_file option \<Rightarrow> certificate_b world \<Rightarrow> certificate_b response \<times> certificate_b world" where
  "post_certificate_b supabaseUrl e title provider date link file w =
     (if \<not> truthy title \<or> file = None then
        (respond 400 (Error ''Title and image are required''), w)
      else
        let f = the file in
        case storage_upload e (''public/'' @ originalname f) (buffer f) (mimetype f) w of
          (Some uploadError, w1) \<Rightarrow> (respond 500 (Error uploadError), w1)
        | (None, w1) \<Rightarrow>
            let publicURL =
              supabaseUrl @ ''/storage/v1/object/public/images/public/'' @ originalname f in
            (case pool_query e INSERT_RETURNING
                    (insert_returning (\<lambda>i.
                       \<lparr>id_col = i, image_col = Some publicURL, link_col = link,
                        title_col = title, provider_col = provider, date_col = date\<rparr>)) w1 of
               (Inl error, w2) \<Rightarrow> (respond 500 (Error error), w2)
             | (Inr rows, w2) \<Rightarrow> (respond_first rows, w2)))"

definition put_certificate_b ::
  "string \<Rightarrow> env \<Rightarrow> nat \<Rightarrow> string option \<Rightarrow> string option \<Rightarrow> string option \<Rightarrow> string option \<Rightarrow>
   multer_file option \<Rightarrow> certificate_b world \<Rightarrow> certificate_b response \<times> certificate_b world" where
  "put_certificate_b supabaseUrl e i title provider date link file w =
     (case (case file of
              None \<Rightarrow> (Inr None, w)
            | Some f \<Rightarrow>
                (case storage_upload e (''public/'' @ originalname f) (buffer f) (mimetype f) w of
                   (Some uploadError, w1) \<Rightarrow> (Inl uploadError, w1)
                 | (None, w1) \<Rightarrow>
                     (Inr (Some (supabaseUrl @ ''/storage/v1/object/public/images/public/''
                                   @ originalname f)), w1))) of
        (Inl uploadError, w1) \<Rightarrow> (respond 500 (Error uploadError), w1)
      | (Inr publicURL, w1) \<Rightarrow>
          (case pool_query e (UPDATE_WHERE_ID_RETURNING i)
                  (update_where_id_returning (\<lambda>r.
                     r\<lparr>title_col := title, provider_col := provider, date_col := date,
                       link_col := link,
                       image_col := coalesce publicURL (image_col r)\<rparr>) i) w1 of
             (Inl error, w2) \<Rightarrow> (respond 500 (Error error), w2)
           | (Inr rows, w2) \<Rightarrow>
               if length rows = 0 then (respond 404 (Error ''Certificate not found''), w2)
               else (respond_first rows, w2)))"

text \<open>\<^verbatim>\<open>SELECT * FROM certificates WHERE provider = $1\<close>: a NULL provider equals
  nothing.\<close>

definition select_where_provider ::
  "string \<Rightarrow> certificate_b world \<Rightarrow> certificate_b list \<times> certificate_b world" where
  "select_where_provider p w = (filter (\<lambda>r. provider_col r = Some p) (certificates w), w)"

text \<open>
  \<^verbatim>\<open>ORDER BY date\<close>. The column's type is the store's; dates are taken in a form
  whose text order is their order (ISO 8601, as in \<^verbatim>\<open>2021-01-01\<close>). In PostgreSQL
  NULL sorts as larger than every value: last in \<^verbatim>\<open>ASC\<close>, first in \<^verbatim>\<open>DESC\<close>.
\<close>

definition date_key :: "certificate_b \<Rightarrow> bool \<times> string" where
  "date_key r = (case date_col r of None \<Rightarrow> (True, []) | Some d \<Rightarrow> (False, d))"

definition select_order_by_date_asc ::
  "certificate_b world \<Rightarrow> certificate_b list \<times> certificate_b world" where
  "select_order_by_date_asc w = (sort_key date_key (certificates w), w)"

definition select_order_by_date_desc ::
  "certificate_b world \<Rightarrow> certificate_b list \<times> certificate_b world" where
  "select_order_by_date_desc w = (rev (sort_key date_key (certificates w)), w)"

text \<open>\<^verbatim>\<open>app.get('/certificates/provider/:provider')\<close>\<close>

definition get_certificates_provider ::
  "env \<Rightarrow> string \<Rightarrow> certificate_b world \<Rightarrow> certificate_b response \<times> certificate_b world" where
  "get_certificates_provider e provider w =
     (case pool_query e (SELECT_WHERE_PROVIDER provider) (select_where_provider provider) w of
        (Inl error, w1) \<Rightarrow> (respond 500 (Error error), w1)
      | (Inr rows, w1) \<Rightarrow> (respond 200 (Rows rows), w1))"

text \<open>\<^verbatim>\<open>app.get('/certificates/oldest')\<close>\<close>

definition get_certificates_oldest ::
  "env \<Rightarrow> certificate_b world \<Rightarrow> certificate_b response \<times> certificate_b world" where
  "get_certificates_oldest e w =
     (case pool_query e SELECT_ORDER_BY_DATE_ASC select_order_by_date_asc w of
        (Inl error, w1) \<Rightarrow> (respond 500 (Error error), w1)
      | (Inr rows, w1) \<Rightarrow> (respond 200 (Rows rows), w1))"

text \<open>\<^verbatim>\<open>app.get('/certificates/newest')\<close>\<close>

definition get_certificates_newest ::
  "env \<Rightarrow> certificate_b world \<Rightarrow> certificate_b response \<times> certificate_b world" where
  "get_certificates_newest e w =
     (case pool_query e SELECT_ORDER_BY_DATE_DESC select_order_by_date_desc w of
        (Inl error, w1) \<Rightarrow> (respond 500 (Error error), w1)
      | (Inr rows, w1) \<Rightarrow> (respond 200 (Rows rows), w1))"

datatype request_b =
    GET_root_b
  | POST_certificate_b "string option" "string option" "string option" "string option"
      "multer_file option"
  | GET_certificates_b
  | GET_certificate_b nat
  | PUT_certificate_b nat "string option" "string option" "string option" "string option"
      "multer_file option"
  | DELETE_certificate_b nat
  | GET_certificates_provider string
  | GET_certificates_oldest
  | GET_certificates_newest

fun app_b ::
  "string \<Rightarrow> env \<Rightarrow> request_b \<Rightarrow> certificate_b world \<Rightarrow> certificate_b response \<times> certificate_b world" where
  "app_b supabaseUrl e GET_root_b w = get_root w"
| "app_b supabaseUrl e (POST_certificate_b title provider date link file) w =
     post_certificate_b supabaseUrl e title provider date link file w"
| "app_b supabaseUrl e GET_certificates_b w = get_certificates e w"
| "app_b supabaseUrl e (GET_certificate_b i) w = get_certificate e i w"
| "app_b supabaseUrl e (PUT_certificate_b i title provider date link file) w =
     put_certificate_b supabaseUrl e i title provider date link file w"
| "app_b supabaseUrl e (DELETE_certificate_b i) w = delete_certificate e i w"
| "app_b supabaseUrl e (GET_certificates_provider provider) w =
     get_certificates_provider e provider w"
| "app_b supabaseUrl e GET_certificates_oldest w = get_certificates_oldest e w"
| "app_b supabaseUrl e GET_certificates_newest w = get_certificates_newest e w"

text \<open>The calls a handler made: what it appended to the sequence of calls.\<close>

definition calls_of :: "'r world \<Rightarrow> 'r world \<Rightarrow> call list" where
  "calls_of w w' = drop (length (calls w)) (calls w')"

text \<open>
  The store assigns identifiers from a counter, so the identifiers of a table built by
  the handlers are pairwise different and below the counter.
\<close>

definition ids_ok :: "'a row_scheme world \<Rightarrow> bool" where
  "ids_ok w = (distinct (map id_col (certificates w)) \<and>
               list_all (\<lambda>r. id_col r < next_id w) (certificates w))"

text \<open>A sequence of requests, each with what it meets outside, served one after another
  from the empty table and the empty bucket.\<close>

definition empty_world :: "'r world" where
  "empty_world = \<lparr>certificates = [], next_id = 1, images = Map.empty, calls = []\<rparr>"

fun serve :: "string \<Rightarrow> (env \<times> request) list \<Rightarrow> certificate world \<Rightarrow> certificate world" where
  "serve supabaseUrl [] w = w"
| "serve supabaseUrl ((e, req) # rest) w = serve supabaseUrl rest (snd (app supabaseUrl e req w))"

fun serve_b ::
  "string \<Rightarrow> (env \<times> request_b) list \<Rightarrow> certificate_b world \<Rightarrow> certificate_b world" where
  "serve_b supabaseUrl [] w = w"
| "serve_b supabaseUrl ((e, req) # rest) w =
     serve_b supabaseUrl rest (snd (app_b supabaseUrl e req w))"

subsection \<open>Example data\<close>

definition base_url :: string where
  "base_url = ''https://demo.supabase.co''"

definition aws_png :: multer_file where
  "aws_png = \<lparr>originalname = ''aws.png'', mimetype = ''image/png'', buffer = [137, 80, 78, 71]\<rparr>"

definition env_ok :: env where
  "env_ok = \<lparr>upload_error = None, query_error = None\<rparr>"

definition env_upload_fails :: env where
  "env_upload_fails = \<lparr>upload_error = Some ''The resource already exists'', query_error = None\<rparr>"

definition env_query_fails :: env where
  "env_query_fails = \<lparr>upload_error = None, query_error = Some ''connection terminated''\<rparr>"

definition old_row :: certificate where
  "old_row = \<lparr>id_col = 1, image_col = Some ''https://demo.supabase.co/storage/v1/object/public/images/public/old.png'',
              link_col = Some ''https://example.org/1'', name_col = Some ''Old Cert'',
              description_col = Some ''first'', category_col = Some ''cloud''\<rparr>"

definition other_row :: certificate where
  "other_row = \<lparr>id_col = 2, image_col = None, link_col = None, name_col = Some ''Other'',
                description_col = None, category_col = None\<rparr>"

definition table_a :: "certificate world" where
  "table_a = \<lparr>certificates = [old_row, other_row], next_id = 3,
              images = [''public/old.png'' \<mapsto> ([1, 2, 3], ''image/png'')], calls = []\<rparr>"

definition row_2022 :: certificate_b where
  "row_2022 = \<lparr>id_col = 1, image_col = Some ''https://demo.supabase.co/storage/v1/object/public/images/public/b.png'',
               link_col = None, title_col = Some ''Later'', provider_col = Some ''AWS'',
               date_col = Some ''2022-01-01''\<rparr>"

definition row_2021 :: certificate_b where
  "row_2021 = \<lparr>id_col = 2, image_col = Some ''https://demo.supabase.co/storage/v1/object/public/images/public/a.png'',
               link_col = Some ''https://example.org/2'', title_col = Some ''Earlier'',
               provider_col = None, date_col = Some ''2021-01-01''\<rparr>"

definition table_b :: "certificate_b world" where
  "table_b = \<lparr>certificates = [row_2022, row_2021], next_id = 3,
              images = [''public/b.png'' \<mapsto> ([4, 5], ''image/png'')], calls = []\<rparr>"

section \<open>Properties\<close>

lemmas store_defs =
  storage_upload_def pool_query_def insert_returning_def select_all_def select_where_id_def
  update_where_id_returning_def delete_where_id_returning_def select_where_provider_def
  select_order_by_date_asc_def select_order_by_date_desc_def

lemmas handler_defs =
  get_root_def post_certificate_def get_certificates_def get_certificate_def
  put_certificate_def delete_certificate_def post_certificate_b_def put_certificate_b_def
  get_certificates_provider_def get_certificates_oldest_def get_certificates_newest_def

lemmas unfold_all =
  handler_defs store_defs respond_def respond_first_def calls_of_def Let_def coalesce_def

lemmas example_defs =
  base_url_def aws_png_def env_ok_def env_upload_fails_def env_query_fails_def old_row_def
  other_row_def table_a_def row_2022_def row_2021_def table_b_def

subsection \<open>Validation comes before every external call\<close>

text \<open>
  C4. When the creation request has no truthy \<^verbatim>\<open>name\<close> (\<^verbatim>\<open>title\<close> in the second
  application) or no file, \<^verbatim>\<open>POST /certificate\<close> answers 400 with the validation
  message and returns before any external call: the whole state is the state before,
  so the sequence of calls has not grown (no upload was performed), the bucket is the
  same and the table has no new row. This holds whatever the stores would have answered.
\<close>

theorem create_invalid_is_400_without_calls:
  assumes "\<not> truthy name \<or> file = None"
  shows
    "(case post_certificate supabaseUrl e name description category link file w of
        (res, w') \<Rightarrow>
          status res = 400 \<and> json res = Error ''Name and image are required'' \<and>
          w' = w \<and> calls_of w w' = [] \<and> certificates w' = certificates w \<and>
          images w' = images w) \<and>
     (case post_certificate_b supabaseUrl e name description category link file wb of
        (res, w') \<Rightarrow>
          status res = 400 \<and> json res = Error ''Title and image are required'' \<and>
          w' = wb \<and> calls_of wb w' = [] \<and> certificates w' = certificates wb \<and>
          images w' = images wb)"
  using assms
  by (auto simp add: post_certificate_def post_certificate_b_def respond_def calls_of_def)

theorem create_invalid_is_400_without_calls_witness:
  "\<not> truthy (Some []) \<and>
   status (fst (post_certificate base_url env_ok (Some []) (Some ''d'') None None
                  (Some aws_png) table_a)) = 400 \<and>
   snd (post_certificate base_url env_ok (Some []) (Some ''d'') None None
          (Some aws_png) table_a) = table_a \<and>
   status (fst (post_certificate_b base_url env_ok (Some ''Title'') (Some ''d'') None None
                  None table_b)) = 400 \<and>
   snd (post_certificate_b base_url env_ok (Some ''Title'') (Some ''d'') None None
          None table_b) = table_b"
  using create_invalid_is_400_without_calls
    [where name = "Some []" and ?file = "Some aws_png" and supabaseUrl = base_url
       and e = env_ok and description = "Some ''d''" and category = None and link = None
       and w = table_a and wb = table_b]
    create_invalid_is_400_without_calls
    [where name = "Some ''Title''" and ?file = None and supabaseUrl = base_url
       and e = env_ok and description = "Some ''d''" and category = None and link = None
       and w = table_a and wb = table_b]
  by (simp add: truthy_def case_prod_beta)

subsection \<open>A failed upload stops the creation\<close>

text \<open>
  C1. For a creation request that passes validation: if the upload reports an error,
  \<^verbatim>\<open>POST /certificate\<close> answers 500 with the error's message, the only external
  call made is the upload (no statement is sent to the database), and the table, the
  identifier counter and the bucket are as before. In every case the calls made are the
  upload first and, only when the upload reported no error, the INSERT after it.
\<close>

theorem create_upload_error_skips_insert:
  assumes "truthy name" and "file = Some f"
  shows
    "(upload_error e = Some msg \<longrightarrow>
        (case post_certificate supabaseUrl e name description category link file w of
           (res, w') \<Rightarrow>
             status res = 500 \<and> json res = Error msg \<and>
             calls_of w w' = [Upload (''public/'' @ originalname f) (buffer f) (mimetype f)] \<and>
             certificates w' = certificates w \<and> next_id w' = next_id w \<and>
             images w' = images w) \<and>
        (case post_certificate_b supabaseUrl e name description category link file wb of
           (res, w') \<Rightarrow>
             status res = 500 \<and> json res = Error msg \<and>
             calls_of wb w' = [Upload (''public/'' @ originalname f) (buffer f) (mimetype f)] \<and>
             certificates w' = certificates wb \<and> next_id w' = next_id wb \<and>
             images w' = images wb)) \<and>
     calls_of w (snd (post_certificate supabaseUrl e name description category link file w)) =
       Upload (''public/'' @ originalname f) (buffer f) (mimetype f) #
       (if upload_error e = None then [Query INSERT_RETURNING] else []) \<and>
     calls_of wb (snd (post_certificate_b supabaseUrl e name description category link file wb)) =
       Upload (''public/'' @ originalname f) (buffer f) (mimetype f) #
       (if upload_error e = None then [Query INSERT_RETURNING] else [])"
  using assms by (simp add: unfold_all split: option.splits)

theorem create_upload_error_skips_insert_witness:
  "truthy (Some ''AWS Cert'') \<and>
   upload_error env_upload_fails = Some ''The resource already exists'' \<and>
   status (fst (post_certificate base_url env_upload_fails (Some ''AWS Cert'') None None None
                  (Some aws_png) table_a)) = 500 \<and>
   certificates (snd (post_certificate base_url env_upload_fails (Some ''AWS Cert'') None None
                  None (Some aws_png) table_a)) = [old_row, other_row] \<and>
   calls_of table_a (snd (post_certificate base_url env_upload_fails (Some ''AWS Cert'') None
                  None None (Some aws_png) table_a)) =
     [Upload ''public/aws.png'' [137, 80, 78, 71] ''image/png''] \<and>
   calls_of table_b (snd (post_certificate_b base_url env_upload_fails (Some ''AWS Cert'') None
                  None None (Some aws_png) table_b)) =
     [Upload ''public/aws.png'' [137, 80, 78, 71] ''image/png'']"
  using create_upload_error_skips_insert
    [where name = "Some ''AWS Cert''" and ?file = "Some aws_png" and f = aws_png
       and e = env_upload_fails and msg = "''The resource already exists''"
       and supabaseUrl = base_url and description = None and category = None and link = None
       and w = table_a and wb = table_b]
  by (simp add: truthy_def env_upload_fails_def aws_png_def table_a_def case_prod_beta)

subsection \<open>The row a creation writes\<close>

text \<open>
  C3. For a creation request that passes validation (a truthy \<^verbatim>\<open>name\<close>, or
  \<^verbatim>\<open>title\<close>, and a file) and whose two external calls report no error:
  the answer is 200 with the created row; that row is the one row appended to the table;
  its \<^verbatim>\<open>image\<close> is exactly the base URL followed by
  \<^verbatim>\<open>/storage/v1/object/public/images/public/\<close> followed by the file's original name;
  and the blob was uploaded under the path \<^verbatim>\<open>public/\<close> followed by the original
  name, with the file's bytes and content type, before the INSERT.
\<close>

theorem create_row_image_and_blob_path:
  assumes "truthy name" and "file = Some f"
    and "upload_error e = None" and "query_error e = None"
  shows
    "(case post_certificate supabaseUrl e name description category link file w of
        (res, w') \<Rightarrow>
          status res = 200 \<and>
          (\<exists>c. json res = Row c \<and> certificates w' = certificates w @ [c] \<and>
             image_col c =
               Some (supabaseUrl @ ''/storage/v1/object/public/images/public/'' @ originalname f)) \<and>
          calls_of w w' =
            [Upload (''public/'' @ originalname f) (buffer f) (mimetype f),
             Query INSERT_RETURNING] \<and>
          images w' (''public/'' @ originalname f) = Some (buffer f, mimetype f)) \<and>
     (case post_certificate_b supabaseUrl e name description category link file wb of
        (res, w') \<Rightarrow>
          status res = 200 \<and>
          (\<exists>c. json res = Row c \<and> certificates w' = certificates wb @ [c] \<and>
             image_col c =
               Some (supabaseUrl @ ''/storage/v1/object/public/images/public/'' @ originalname f)) \<and>
          calls_of wb w' =
            [Upload (''public/'' @ originalname f) (buffer f) (mimetype f),
             Query INSERT_RETURNING] \<and>
          images w' (''public/'' @ originalname f) = Some (buffer f, mimetype f))"
  using assms by (simp add: unfold_all)

theorem create_row_image_and_blob_path_witness:
  "truthy (Some ''AWS Cert'') \<and>
   (\<exists>c. json (fst (post_certificate base_url env_ok (Some ''AWS Cert'') None None None
                      (Some aws_png) table_a)) = Row c \<and>
        certificates (snd (post_certificate base_url env_ok (Some ''AWS Cert'') None None None
                      (Some aws_png) table_a)) = [old_row, other_row, c] \<and>
        image_col c =
          Some ''https://demo.supabase.co/storage/v1/object/public/images/public/aws.png'') \<and>
   images (snd (post_certificate base_url env_ok (Some ''AWS Cert'') None None None
                  (Some aws_png) table_a)) ''public/aws.png'' =
     Some ([137, 80, 78, 71], ''image/png'') \<and>
   (\<exists>c. json (fst (post_certificate_b base_url env_ok (Some ''AWS Cert'') None None None
                      (Some aws_png) table_b)) = Row c \<and>
        image_col c =
          Some ''https://demo.supabase.co/storage/v1/object/public/images/public/aws.png'')"
  using create_row_image_and_blob_path
    [where name = "Some ''AWS Cert''" and ?file = "Some aws_png" and f = aws_png
       and e = env_ok and supabaseUrl = base_url and description = None and category = None
       and link = None and w = table_a and wb = table_b]
  by (auto simp add: truthy_def env_ok_def aws_png_def table_a_def base_url_def case_prod_beta)

subsection \<open>Nothing removes a blob\<close>

lemma post_certificate_images:
  "images (snd (post_certificate supabaseUrl e name description category link file w)) =
     (case file of
        None \<Rightarrow> images w
      | Some f \<Rightarrow>
          if truthy name \<and> upload_error e = None
          then (images w)((''public/'' @ originalname f) \<mapsto> (buffer f, mimetype f))
          else images w)"
  by (simp add: unfold_all split: option.splits)

lemma post_certificate_calls:
  "calls_of w (snd (post_certificate supabaseUrl e name description category link file w)) =
     (case file of
        None \<Rightarrow> []
      | Some f \<Rightarrow>
          if truthy name
          then Upload (''public/'' @ originalname f) (buffer f) (mimetype f) #
               (if upload_error e = None then [Query INSERT_RETURNING] else [])
          else [])"
  by (simp add: unfold_all split: option.splits)

lemma post_certificate_b_images:
  "images (snd (post_certificate_b supabaseUrl e title provider date link file w)) =
     (case file of
        None \<Rightarrow> images w
      | Some f \<Rightarrow>
          if truthy title \<and> upload_error e = None
          then (images w)((''public/'' @ originalname f) \<mapsto> (buffer f, mimetype f))
          else images w)"
  by (simp add: unfold_all split: option.splits)

lemma post_certificate_b_calls:
  "calls_of w (snd (post_certificate_b supabaseUrl e title provider date link file w)) =
     (case file of
        None \<Rightarrow> []
      | Some f \<Rightarrow>
          if truthy title
          then Upload (''public/'' @ originalname f) (buffer f) (mimetype f) #
               (if upload_error e = None then [Query INSERT_RETURNING] else [])
          else [])"
  by (simp add: unfold_all split: option.splits)

lemma put_certificate_images:
  "images (snd (put_certificate supabaseUrl e i name description category link file w)) =
     (case file of
        None \<Rightarrow> images w
      | Some f \<Rightarrow>
          if upload_error e = None
          then (images w)((''public/'' @ originalname f) \<mapsto> (buffer f, mimetype f))
          else images w)"
  by (cases "file"; cases "upload_error e"; cases "query_error e"; simp add: unfold_all)

lemma put_certificate_calls:
  "calls_of w (snd (put_certificate supabaseUrl e i name description category link file w)) =
     (case file of
        None \<Rightarrow> [Query (UPDATE_WHERE_ID_RETURNING i)]
      | Some f \<Rightarrow>
          Upload (''public/'' @ originalname f) (buffer f) (mimetype f) #
          (if upload_error e = None then [Query (UPDATE_WHERE_ID_RETURNING i)] else []))"
  by (cases "file"; cases "upload_error e"; cases "query_error e"; simp add: unfold_all)

lemma put_certificate_b_images:
  "images (snd (put_certificate_b supabaseUrl e i title provider date link file w)) =
     (case file of
        None \<Rightarrow> images w
      | Some f \<Rightarrow>
          if upload_error e = None
          then (images w)((''public/'' @ originalname f) \<mapsto> (buffer f, mimetype f))
          else images w)"
  by (cases "file"; cases "upload_error e"; cases "query_error e"; simp add: unfold_all)

lemma put_certificate_b_calls:
  "calls_of w (snd (put_certificate_b supabaseUrl e i title provider date link file w)) =
     (case file of
        None \<Rightarrow> [Query (UPDATE_WHERE_ID_RETURNING i)]
      | Some f \<Rightarrow>
          Upload (''public/'' @ originalname f) (buffer f) (mimetype f) #
          (if upload_error e = None then [Query (UPDATE_WHERE_ID_RETURNING i)] else []))"
  by (cases "file"; cases "upload_error e"; cases "query_error e"; simp add: unfold_all)

lemma read_only_images:
  "images (snd (get_root w)) = images w"
  "images (snd (get_certificates e w)) = images w"
  "images (snd (get_certificate e i wr)) = images wr"
  "images (snd (delete_certificate e i wr)) = images wr"
  "images (snd (get_certificates_provider e p wb)) = images wb"
  "images (snd (get_certificates_oldest e wb)) = images wb"
  "images (snd (get_certificates_newest e wb)) = images wb"
  by (simp_all add: unfold_all split: option.splits)

lemma delete_certificate_calls:
  "calls_of w (snd (delete_certificate e i w)) = [Query (DELETE_WHERE_ID_RETURNING i)]"
  by (simp add: unfold_all split: option.splits)

lemma app_images_dom: "dom (images w) \<subseteq> dom (images (snd (app supabaseUrl e req w)))"
  by (cases req)
     (auto simp: read_only_images post_certificate_images put_certificate_images
        split: option.splits)

lemma app_b_images_dom: "dom (images w) \<subseteq> dom (images (snd (app_b supabaseUrl e req w)))"
  by (cases req)
     (auto simp: read_only_images post_certificate_b_images put_certificate_b_images
        split: option.splits)

lemma app_images_untouched:
  assumes "\<forall>b c. Upload p b c \<notin> set (calls_of w (snd (app supabaseUrl e req w)))"
  shows "images (snd (app supabaseUrl e req w)) p = images w p"
  using assms
  by (cases req)
     (auto simp: read_only_images post_certificate_images put_certificate_images
        post_certificate_calls put_certificate_calls split: option.splits)

lemma app_b_images_untouched:
  assumes "\<forall>b c. Upload p b c \<notin> set (calls_of w (snd (app_b supabaseUrl e req w)))"
  shows "images (snd (app_b supabaseUrl e req w)) p = images w p"
  using assms
  by (cases req)
     (auto simp: read_only_images post_certificate_b_images put_certificate_b_images
        post_certificate_b_calls put_certificate_b_calls split: option.splits)

lemma post_certificate_orphan:
  assumes "truthy name" and "upload_error e = None" and "query_error e = Some msg"
  shows "status (fst (post_certificate supabaseUrl e name description category link (Some f) w)) = 500"
    and "certificates (snd (post_certificate supabaseUrl e name description category link (Some f) w)) =
           certificates w"
  using assms by (simp_all add: unfold_all)

lemma post_certificate_b_orphan:
  assumes "truthy title" and "upload_error e = None" and "query_error e = Some msg"
  shows "status (fst (post_certificate_b supabaseUrl e title provider date link (Some f) w)) = 500"
    and "certificates (snd (post_certificate_b supabaseUrl e title provider date link (Some f) w)) =
           certificates w"
  using assms by (simp_all add: unfold_all)

text \<open>
  C2. Blobs are identified by their path in the bucket. For every request to either
  application and whatever the stores answer, every path stored before the request is
  stored after it, and a path the request did not upload to holds the blob it held
  before: the handlers make no call but uploads and SQL statements. In
  particular, when the INSERT of a creation fails after a successful upload, the answer
  is 500, the table is unchanged and the uploaded blob stays in the bucket; and
  \<^verbatim>\<open>DELETE /certificate/:id\<close> sends the DELETE statement and nothing else, so
  the bucket is the one before.
\<close>

theorem blobs_never_removed:
  "dom (images w) \<subseteq> dom (images (snd (app supabaseUrl e req w))) \<and>
   dom (images wb) \<subseteq> dom (images (snd (app_b supabaseUrl e req_b wb))) \<and>
   ((\<forall>b c. Upload p b c \<notin> set (calls_of w (snd (app supabaseUrl e req w)))) \<longrightarrow>
      images (snd (app supabaseUrl e req w)) p = images w p) \<and>
   ((\<forall>b c. Upload p b c \<notin> set (calls_of wb (snd (app_b supabaseUrl e req_b wb)))) \<longrightarrow>
      images (snd (app_b supabaseUrl e req_b wb)) p = images wb p) \<and>
   (truthy name \<and> upload_error e = None \<and> query_error e = Some msg \<longrightarrow>
      (case post_certificate supabaseUrl e name description category link (Some f) w of
         (res, w') \<Rightarrow>
           status res = 500 \<and> certificates w' = certificates w \<and>
           images w' (''public/'' @ originalname f) = Some (buffer f, mimetype f)) \<and>
      (case post_certificate_b supabaseUrl e name description category link (Some f) wb of
         (res, w') \<Rightarrow>
           status res = 500 \<and> certificates w' = certificates wb \<and>
           images w' (''public/'' @ originalname f) = Some (buffer f, mimetype f))) \<and>
   images (snd (delete_certificate e i wd)) = images wd \<and>
   calls_of wd (snd (delete_certificate e i wd)) = [Query (DELETE_WHERE_ID_RETURNING i)]"
  by (simp add: app_images_dom app_b_images_dom app_images_untouched app_b_images_untouched
      post_certificate_orphan post_certificate_b_orphan post_certificate_images
      post_certificate_b_images read_only_images delete_certificate_calls case_prod_beta)

theorem blobs_never_removed_witness:
  "truthy (Some ''AWS Cert'') \<and>
   status (fst (post_certificate base_url env_query_fails (Some ''AWS Cert'') None None None
                  (Some aws_png) table_a)) = 500 \<and>
   certificates (snd (post_certificate base_url env_query_fails (Some ''AWS Cert'') None None
                  None (Some aws_png) table_a)) = [old_row, other_row] \<and>
   images (snd (post_certificate base_url env_query_fails (Some ''AWS Cert'') None None None
                  (Some aws_png) table_a)) ''public/aws.png'' =
     Some ([137, 80, 78, 71], ''image/png'') \<and>
   images (snd (app base_url env_ok (DELETE_certificate 1) table_a)) ''public/old.png'' =
     Some ([1, 2, 3], ''image/png'') \<and>
   images (snd (delete_certificate env_ok 1 table_a)) = images table_a"
  using blobs_never_removed
    [where name = "Some ''AWS Cert''" and f = aws_png and e = env_query_fails
       and msg = "''connection terminated''" and supabaseUrl = base_url and description = None
       and category = None and link = None and w = table_a and wb = table_b
       and req = GET_root and req_b = GET_root_b and p = "[]" and i = 1 and wd = table_a]
    blobs_never_removed
    [where name = None and f = aws_png and e = env_ok
       and msg = "[]" and supabaseUrl = base_url and description = None
       and category = None and link = None and w = table_a and wb = table_b
       and req = "DELETE_certificate 1" and req_b = GET_root_b and p = "''public/old.png''"
       and i = 1 and wd = table_a]
  by (simp add: truthy_def env_query_fails_def env_ok_def aws_png_def table_a_def
      case_prod_beta delete_certificate_calls read_only_images)

subsection \<open>Update\<close>

text \<open>What \<^verbatim>\<open>PUT /certificate/:id\<close> does to the table: nothing when a call reports an
  error, and otherwise the SET list on every row the WHERE clause selects.\<close>

lemma put_certificate_table:
  "certificates (snd (put_certificate supabaseUrl e i name description category link file w)) =
     (if (file \<noteq> None \<and> upload_error e \<noteq> None) \<or> query_error e \<noteq> None
      then certificates w
      else map (\<lambda>r. if id_col r = i
                     then r\<lparr>name_col := name, description_col := description,
                            image_col :=
                              (case file of
                                 None \<Rightarrow> image_col r
                               | Some f \<Rightarrow>
                                   Some (supabaseUrl @ ''/storage/v1/object/public/images/public/''
                                           @ originalname f)),
                            category_col := category, link_col := link\<rparr>
                     else r) (certificates w))"
  by (cases "file"; cases "upload_error e"; cases "query_error e"; simp add: unfold_all)

lemma put_certificate_b_table:
  "certificates (snd (put_certificate_b supabaseUrl e i title provider date link file w)) =
     (if (file \<noteq> None \<and> upload_error e \<noteq> None) \<or> query_error e \<noteq> None
      then certificates w
      else map (\<lambda>r. if id_col r = i
                     then r\<lparr>title_col := title, provider_col := provider, date_col := date,
                            link_col := link,
                            image_col :=
                              (case file of
                                 None \<Rightarrow> image_col r
                               | Some f \<Rightarrow>
                                   Some (supabaseUrl @ ''/storage/v1/object/public/images/public/''
                                           @ originalname f))\<rparr>
                     else r) (certificates w))"
  by (cases "file"; cases "upload_error e"; cases "query_error e"; simp add: unfold_all)

lemma put_certificate_status:
  "status (fst (put_certificate supabaseUrl e i name description category link file w)) =
     (if (file \<noteq> None \<and> upload_error e \<noteq> None) \<or> query_error e \<noteq> None then 500
      else if filter (\<lambda>r. id_col r = i) (certificates w) = [] then 404 else 200)"
  by (cases "file"; cases "upload_error e"; cases "query_error e";
      cases "filter (\<lambda>r. id_col r = i) (certificates w)"; simp add: unfold_all)

lemma put_certificate_b_status:
  "status (fst (put_certificate_b supabaseUrl e i title provider date link file w)) =
     (if (file \<noteq> None \<and> upload_error e \<noteq> None) \<or> query_error e \<noteq> None then 500
      else if filter (\<lambda>r. id_col r = i) (certificates w) = [] then 404 else 200)"
  by (cases "file"; cases "upload_error e"; cases "query_error e";
      cases "filter (\<lambda>r. id_col r = i) (certificates w)"; simp add: unfold_all)

lemma filter_id_empty:
  "\<forall>r\<in>set xs. id_col r \<noteq> i \<Longrightarrow> filter (\<lambda>x. id_col x = i) xs = []"
  by (simp add: filter_empty_conv)

text \<open>
  C5. Rows are followed through an update by their position in the table (the
  \<^verbatim>\<open>id\<close> column is never changed). Without a file, the \<^verbatim>\<open>image\<close> column of
  every row after \<^verbatim>\<open>PUT /certificate/:id\<close> is what it was before, whatever the stores
  answer. With a file, when neither call reports an error, the \<^verbatim>\<open>image\<close> of
  the rows with the requested identifier is the newly built URL and that of the other
  rows is what it was. When a row with the identifier exists and no call reports an
  error, the answer is 200.
\<close>

theorem update_image_replaced_only_with_file:
  "(file = None \<longrightarrow>
      map image_col
        (certificates (snd (put_certificate supabaseUrl e i name description category link file w))) =
        map image_col (certificates w) \<and>
      map image_col
        (certificates (snd (put_certificate_b supabaseUrl e i name description category link file wb))) =
        map image_col (certificates wb)) \<and>
   (file = Some f \<and> upload_error e = None \<and> query_error e = None \<longrightarrow>
      map image_col
        (certificates (snd (put_certificate supabaseUrl e i name description category link file w))) =
        map (\<lambda>r. if id_col r = i
                  then Some (supabaseUrl @ ''/storage/v1/object/public/images/public/''
                               @ originalname f)
                  else image_col r) (certificates w) \<and>
      map image_col
        (certificates (snd (put_certificate_b supabaseUrl e i name description category link file wb))) =
        map (\<lambda>r. if id_col r = i
                  then Some (supabaseUrl @ ''/storage/v1/object/public/images/public/''
                               @ originalname f)
                  else image_col r) (certificates wb)) \<and>
   map id_col
     (certificates (snd (put_certificate supabaseUrl e i name description category link file w))) =
     map id_col (certificates w) \<and>
   map id_col
     (certificates (snd (put_certificate_b supabaseUrl e i name description category link file wb))) =
     map id_col (certificates wb) \<and>
   ((file = None \<or> upload_error e = None) \<and> query_error e = None \<longrightarrow>
      (r \<in> set (certificates w) \<and> id_col r = i \<longrightarrow>
         status (fst (put_certificate supabaseUrl e i name description category link file w)) = 200) \<and>
      (rb \<in> set (certificates wb) \<and> id_col rb = i \<longrightarrow>
         status (fst (put_certificate_b supabaseUrl e i name description category link file wb)) = 200))"
  by (auto simp add: put_certificate_table put_certificate_b_table put_certificate_status
      put_certificate_b_status filter_empty_conv o_def)

theorem update_image_replaced_only_with_file_witness:
  "map image_col (certificates (snd (put_certificate base_url env_ok 1 (Some ''New'') None None
       None None table_a))) =
     [Some ''https://demo.supabase.co/storage/v1/object/public/images/public/old.png'', None] \<and>
   map image_col (certificates (snd (put_certificate base_url env_ok 1 (Some ''New'') None None
       None (Some aws_png) table_a))) =
     [Some ''https://demo.supabase.co/storage/v1/object/public/images/public/aws.png'', None] \<and>
   status (fst (put_certificate base_url env_ok 1 (Some ''New'') None None None (Some aws_png)
       table_a)) = 200 \<and>
   map image_col (certificates (snd (put_certificate_b base_url env_ok 2 (Some ''New'') None None
       None None table_b))) =
     [Some ''https://demo.supabase.co/storage/v1/object/public/images/public/b.png'',
      Some ''https://demo.supabase.co/storage/v1/object/public/images/public/a.png'']"
  using update_image_replaced_only_with_file
    [where ?file = None and f = aws_png and e = env_ok and supabaseUrl = base_url and i = 1
       and name = "Some ''New''" and description = None and category = None and link = None
       and w = table_a and wb = table_b and r = old_row and rb = row_2022]
    update_image_replaced_only_with_file
    [where ?file = "Some aws_png" and f = aws_png and e = env_ok and supabaseUrl = base_url
       and i = 1 and name = "Some ''New''" and description = None and category = None
       and link = None and w = table_a and wb = table_b and r = old_row and rb = row_2022]
    update_image_replaced_only_with_file
    [where ?file = None and f = aws_png and e = env_ok and supabaseUrl = base_url and i = 2
       and name = "Some ''New''" and description = None and category = None and link = None
       and w = table_a and wb = table_b and r = other_row and rb = row_2021]
  by (simp add: example_defs)

text \<open>
  C6. When \<^verbatim>\<open>PUT /certificate/:id\<close> meets no error, every metadata column
  (\<^verbatim>\<open>name, description, category, link\<close>; in the second application
  \<^verbatim>\<open>title, provider, date, link\<close>) of the rows with the requested identifier holds
  the value the request supplied, which is NULL (\<open>None\<close>) for a field the request
  omitted; the prior value is not kept. The rows with another identifier keep theirs, and
  no \<^verbatim>\<open>id\<close> changes.
\<close>

theorem update_overwrites_metadata:
  assumes "file = None \<or> upload_error e = None" and "query_error e = None"
  shows
    "(let cs' = certificates
         (snd (put_certificate supabaseUrl e i name description category link file w)) in
        map id_col cs' = map id_col (certificates w) \<and>
        map name_col cs' =
          map (\<lambda>r. if id_col r = i then name else name_col r) (certificates w) \<and>
        map description_col cs' =
          map (\<lambda>r. if id_col r = i then description else description_col r) (certificates w) \<and>
        map category_col cs' =
          map (\<lambda>r. if id_col r = i then category else category_col r) (certificates w) \<and>
        map link_col cs' =
          map (\<lambda>r. if id_col r = i then link else link_col r) (certificates w)) \<and>
     (let cs' = certificates
         (snd (put_certificate_b supabaseUrl e i title provider date link file wb)) in
        map id_col cs' = map id_col (certificates wb) \<and>
        map title_col cs' =
          map (\<lambda>r. if id_col r = i then title else title_col r) (certificates wb) \<and>
        map provider_col cs' =
          map (\<lambda>r. if id_col r = i then provider else provider_col r) (certificates wb) \<and>
        map date_col cs' =
          map (\<lambda>r. if id_col r = i then date else date_col r) (certificates wb) \<and>
        map link_col cs' =
          map (\<lambda>r. if id_col r = i then link else link_col r) (certificates wb))"
  using assms
  by (auto simp add: put_certificate_table put_certificate_b_table o_def Let_def)

theorem update_overwrites_metadata_witness:
  "query_error env_ok = None \<and>
   map description_col (certificates table_a) = [Some ''first'', None] \<and>
   map description_col (certificates (snd (put_certificate base_url env_ok 1 (Some ''New'') None
       None None None table_a))) = [None, None] \<and>
   map name_col (certificates (snd (put_certificate base_url env_ok 1 (Some ''New'') None
       None None None table_a))) = [Some ''New'', Some ''Other''] \<and>
   map link_col (certificates (snd (put_certificate base_url env_ok 1 (Some ''New'') None
       None None None table_a))) = [None, None] \<and>
   map date_col (certificates (snd (put_certificate_b base_url env_ok 2 (Some ''T'') (Some ''P'')
       None None None table_b))) = [Some ''2022-01-01'', None] \<and>
   map provider_col (certificates (snd (put_certificate_b base_url env_ok 2 (Some ''T'')
       (Some ''P'') None None None table_b))) = [Some ''AWS'', Some ''P'']"
  using update_overwrites_metadata
    [where ?file = None and e = env_ok and supabaseUrl = base_url and i = 1
       and name = "Some ''New''" and description = None and category = None and link = None
       and title = None and provider = None and date = None
       and w = table_a and wb = table_b]
    update_overwrites_metadata
    [where ?file = None and e = env_ok and supabaseUrl = base_url and i = 2
       and name = None and description = None and category = None and link = None
       and title = "Some ''T''" and provider = "Some ''P''" and date = None
       and w = table_a and wb = table_b]
  by (simp add: example_defs Let_def)

text \<open>
  C10. \<^verbatim>\<open>PUT /certificate/:id\<close> with a file, on an identifier that matches no row:
  the answer is 404 exactly when neither call reports an error, and whenever it is 404
  the handler has first uploaded the file (the upload is the first call, the UPDATE the
  second) and the bucket holds the file's bytes at \<^verbatim>\<open>public/\<close> followed by the
  original name, while the table is unchanged, so no row was written to refer to it.
\<close>

theorem update_not_found_has_uploaded:
  assumes "\<forall>r\<in>set (certificates w). id_col r \<noteq> i"
    and "\<forall>r\<in>set (certificates wb). id_col r \<noteq> i"
    and "file = Some f"
  shows
    "(case put_certificate supabaseUrl e i name description category link file w of
        (res, w') \<Rightarrow>
          (status res = 404 \<longleftrightarrow> upload_error e = None \<and> query_error e = None) \<and>
          (status res = 404 \<longrightarrow>
             calls_of w w' =
               [Upload (''public/'' @ originalname f) (buffer f) (mimetype f),
                Query (UPDATE_WHERE_ID_RETURNING i)] \<and>
             images w' (''public/'' @ originalname f) = Some (buffer f, mimetype f) \<and>
             certificates w' = certificates w)) \<and>
     (case put_certificate_b supabaseUrl e i name description category link file wb of
        (res, w') \<Rightarrow>
          (status res = 404 \<longleftrightarrow> upload_error e = None \<and> query_error e = None) \<and>
          (status res = 404 \<longrightarrow>
             calls_of wb w' =
               [Upload (''public/'' @ originalname f) (buffer f) (mimetype f),
                Query (UPDATE_WHERE_ID_RETURNING i)] \<and>
             images w' (''public/'' @ originalname f) = Some (buffer f, mimetype f) \<and>
             certificates w' = certificates wb))"
proof -
  have "filter (\<lambda>r. id_col r = i) (certificates w) = []"
    and "filter (\<lambda>r. id_col r = i) (certificates wb) = []"
    using assms(1,2) by (simp_all add: filter_id_empty)
  moreover have "map (\<lambda>r. if id_col r = i then g r else r) (certificates w) = certificates w"
    for g using assms(1) by (simp add: map_idI)
  moreover have "map (\<lambda>r. if id_col r = i then g r else r) (certificates wb) = certificates wb"
    for g using assms(2) by (simp add: map_idI)
  ultimately show ?thesis
    using assms(3)
    by (simp add: case_prod_beta put_certificate_status put_certificate_b_status
        put_certificate_calls put_certificate_b_calls put_certificate_images
        put_certificate_b_images put_certificate_table put_certificate_b_table)
qed

theorem update_not_found_has_uploaded_witness:
  "status (fst (put_certificate base_url env_ok 7 (Some ''New'') None None None (Some aws_png)
                  table_a)) = 404 \<and>
   images table_a ''public/aws.png'' = None \<and>
   images (snd (put_certificate base_url env_ok 7 (Some ''New'') None None None (Some aws_png)
                  table_a)) ''public/aws.png'' = Some ([137, 80, 78, 71], ''image/png'') \<and>
   calls_of table_a (snd (put_certificate base_url env_ok 7 (Some ''New'') None None None
                  (Some aws_png) table_a)) =
     [Upload ''public/aws.png'' [137, 80, 78, 71] ''image/png'',
      Query (UPDATE_WHERE_ID_RETURNING 7)] \<and>
   certificates (snd (put_certificate base_url env_ok 7 (Some ''New'') None None None
                  (Some aws_png) table_a)) = certificates table_a \<and>
   status (fst (put_certificate_b base_url env_ok 7 (Some ''New'') None None None (Some aws_png)
                  table_b)) = 404 \<and>
   images (snd (put_certificate_b base_url env_ok 7 (Some ''New'') None None None (Some aws_png)
                  table_b)) ''public/aws.png'' = Some ([137, 80, 78, 71], ''image/png'')"
  using update_not_found_has_uploaded
    [where ?file = "Some aws_png" and f = aws_png and e = env_ok and supabaseUrl = base_url
       and i = 7 and name = "Some ''New''" and description = None and category = None
       and link = None and w = table_a and wb = table_b]
  by (simp add: example_defs case_prod_beta)

subsection \<open>Identifiers that match no row\<close>

lemma get_certificate_not_found:
  assumes "query_error e = None" and "\<forall>r\<in>set (certificates w). id_col r \<noteq> i"
  shows "fst (get_certificate e i w) = respond 404 (Error ''Certificate not found'')"
  using assms by (simp add: unfold_all filter_empty_conv)

lemma get_certificate_table: "certificates (snd (get_certificate e i w)) = certificates w"
  by (simp add: unfold_all split: option.splits)

lemma delete_certificate_ok:
  assumes "query_error e = None"
  shows "delete_certificate e i w =
     (if filter (\<lambda>r. id_col r = i) (certificates w) = []
      then respond 404 (Error ''Certificate not found'')
      else respond_first (filter (\<lambda>r. id_col r = i) (certificates w)),
      w\<lparr>certificates := filter (\<lambda>x. id_col x \<noteq> i) (certificates w),
        calls := calls w @ [Query (DELETE_WHERE_ID_RETURNING i)]\<rparr>)"
  using assms
  by (simp add: delete_certificate_def pool_query_def delete_where_id_returning_def Let_def)

lemma delete_certificate_failed:
  assumes "query_error e = Some msg"
  shows "certificates (snd (delete_certificate e i w)) = certificates w"
  using assms by (simp add: unfold_all)

text \<open>
  C7. For an identifier that matches no row of the table:
  \<^verbatim>\<open>GET /certificate/:id\<close>, \<^verbatim>\<open>PUT /certificate/:id\<close> (both applications) and
  \<^verbatim>\<open>DELETE /certificate/:id\<close> leave the table exactly as it was, whatever the stores
  answer; and each answers 404 with \<^verbatim>\<open>Certificate not found\<close> when the external
  calls it makes report no error (the statement, and for an update with a file the
  upload before it). A call that reports an error is the 500 of the \<^verbatim>\<open>catch\<close> branch.
\<close>

theorem not_found_is_404_table_unchanged:
  assumes "\<forall>r\<in>set (certificates w). id_col r \<noteq> i"
    and "\<forall>r\<in>set (certificates wb). id_col r \<noteq> i"
  shows
    "certificates (snd (get_certificate e i w)) = certificates w \<and>
     certificates (snd (delete_certificate e i w)) = certificates w \<and>
     certificates (snd (put_certificate supabaseUrl e i name description category link file w)) =
       certificates w \<and>
     certificates (snd (put_certificate_b supabaseUrl e i name description category link file wb)) =
       certificates wb \<and>
     certificates (snd (get_certificate e i wb)) = certificates wb \<and>
     certificates (snd (delete_certificate e i wb)) = certificates wb \<and>
     (query_error e = None \<longrightarrow>
        fst (get_certificate e i w) = respond 404 (Error ''Certificate not found'') \<and>
        fst (delete_certificate e i w) = respond 404 (Error ''Certificate not found'') \<and>
        fst (get_certificate e i wb) = respond 404 (Error ''Certificate not found'') \<and>
        fst (delete_certificate e i wb) = respond 404 (Error ''Certificate not found'')) \<and>
     ((file = None \<or> upload_error e = None) \<and> query_error e = None \<longrightarrow>
        status (fst (put_certificate supabaseUrl e i name description category link file w)) = 404 \<and>
        status (fst (put_certificate_b supabaseUrl e i name description category link file wb)) = 404)"
proof -
  have none: "filter (\<lambda>r. id_col r = i) (certificates w) = []"
    and none_b: "filter (\<lambda>r. id_col r = i) (certificates wb) = []"
    using assms by (simp_all add: filter_id_empty)
  have all: "filter (\<lambda>r. id_col r \<noteq> i) (certificates w) = certificates w"
    using assms(1) by (simp add: filter_id_conv)
  have all_b: "filter (\<lambda>r. id_col r \<noteq> i) (certificates wb) = certificates wb"
    using assms(2) by (simp add: filter_id_conv)
  have same: "map (\<lambda>r. if id_col r = i then g r else r) (certificates w) = certificates w"
    for g using assms(1) by (simp add: map_idI)
  have same_b: "map (\<lambda>r. if id_col r = i then g r else r) (certificates wb) = certificates wb"
    for g using assms(2) by (simp add: map_idI)
  have del: "certificates (snd (delete_certificate e i w)) = certificates w"
    by (cases "query_error e") (simp_all add: delete_certificate_ok delete_certificate_failed all)
  have del_b: "certificates (snd (delete_certificate e i wb)) = certificates wb"
    by (cases "query_error e") (simp_all add: delete_certificate_ok delete_certificate_failed all_b)
  show ?thesis
    using assms
    by (simp add: get_certificate_table get_certificate_not_found del del_b delete_certificate_ok none
        none_b same same_b put_certificate_table put_certificate_b_table put_certificate_status
        put_certificate_b_status)
qed

theorem not_found_is_404_table_unchanged_witness:
  "status (fst (get_certificate env_ok 7 table_a)) = 404 \<and>
   status (fst (delete_certificate env_ok 7 table_a)) = 404 \<and>
   certificates (snd (delete_certificate env_ok 7 table_a)) = [old_row, other_row] \<and>
   status (fst (put_certificate base_url env_ok 7 (Some ''New'') None None None None table_a)) = 404 \<and>
   certificates (snd (put_certificate base_url env_ok 7 (Some ''New'') None None None None
                        table_a)) = [old_row, other_row] \<and>
   status (fst (put_certificate_b base_url env_ok 7 (Some ''New'') None None None None
                  table_b)) = 404 \<and>
   certificates (snd (put_certificate_b base_url env_upload_fails 7 (Some ''New'') None None None
                        (Some aws_png) table_b)) = [row_2022, row_2021]"
  using not_found_is_404_table_unchanged
    [where ?file = None and e = env_ok and supabaseUrl = base_url
       and i = 7 and name = "Some ''New''" and description = None and category = None
       and link = None and w = table_a and wb = table_b]
    not_found_is_404_table_unchanged
    [where ?file = "Some aws_png" and e = env_upload_fails and supabaseUrl = base_url
       and i = 7 and name = "Some ''New''" and description = None and category = None
       and link = None and w = table_a and wb = table_b]
  by (simp add: example_defs respond_def)

subsection \<open>Identifiers are unique\<close>

lemma map_id_col_update:
  assumes "\<And>r. id_col (g r) = id_col r"
  shows "map id_col (map (\<lambda>r. if id_col r = i then g r else r) xs) = map id_col xs"
  using assms by (induction xs) auto

lemma ids_ok_same:
  assumes "ids_ok w" and "certificates w' = certificates w" and "next_id w' = next_id w"
  shows "ids_ok w'"
  using assms by (simp add: ids_ok_def)

lemma ids_ok_insert:
  assumes "ids_ok w" and "id_col r = next_id w"
    and "certificates w' = certificates w @ [r]" and "next_id w' = Suc (next_id w)"
  shows "ids_ok w'"
  using assms by (auto simp: ids_ok_def list_all_iff)

lemma ids_ok_update:
  assumes "ids_ok w" and "\<And>r. id_col (g r) = id_col r"
    and "certificates w' = map (\<lambda>r. if id_col r = i then g r else r) (certificates w)"
    and "next_id w' = next_id w"
  shows "ids_ok w'"
proof -
  have "map id_col (certificates w') = map id_col (certificates w)"
    using assms(2,3) by (simp only: map_id_col_update)
  moreover have "list_all (\<lambda>r. id_col r < next_id w') (certificates w')"
    using assms by (auto simp: ids_ok_def list_all_iff)
  ultimately show ?thesis using assms(1) by (simp add: ids_ok_def)
qed

lemma ids_ok_delete:
  assumes "ids_ok w"
    and "certificates w' = filter (\<lambda>r. id_col r \<noteq> i) (certificates w)"
    and "next_id w' = next_id w"
  shows "ids_ok w'"
  using assms by (auto simp: ids_ok_def list_all_iff distinct_map_filter)

lemma post_certificate_table:
  "(certificates (snd (post_certificate supabaseUrl e name description category link file w)) =
      certificates w \<and>
    next_id (snd (post_certificate supabaseUrl e name description category link file w)) =
      next_id w) \<or>
   (\<exists>r. id_col r = next_id w \<and>
      certificates (snd (post_certificate supabaseUrl e name description category link file w)) =
        certificates w @ [r] \<and>
      next_id (snd (post_certificate supabaseUrl e name description category link file w)) =
        Suc (next_id w))"
  by (simp add: unfold_all split: option.splits)

lemma post_certificate_b_table:
  "(certificates (snd (post_certificate_b supabaseUrl e title provider date link file w)) =
      certificates w \<and>
    next_id (snd (post_certificate_b supabaseUrl e title provider date link file w)) =
      next_id w) \<or>
   (\<exists>r. id_col r = next_id w \<and>
      certificates (snd (post_certificate_b supabaseUrl e title provider date link file w)) =
        certificates w @ [r] \<and>
      next_id (snd (post_certificate_b supabaseUrl e title provider date link file w)) =
        Suc (next_id w))"
  by (simp add: unfold_all split: option.splits)

lemma put_certificate_next_id:
  "next_id (snd (put_certificate supabaseUrl e i name description category link file w)) = next_id w"
  by (cases "file"; cases "upload_error e"; cases "query_error e"; simp add: unfold_all)

lemma put_certificate_b_next_id:
  "next_id (snd (put_certificate_b supabaseUrl e i title provider date link file w)) = next_id w"
  by (cases "file"; cases "upload_error e"; cases "query_error e"; simp add: unfold_all)

lemma ids_ok_post_certificate:
  "ids_ok w \<Longrightarrow>
   ids_ok (snd (post_certificate supabaseUrl e name description category link file w))"
  using post_certificate_table[of supabaseUrl e name description category link "file" w]
  by (auto intro: ids_ok_same ids_ok_insert)

lemma ids_ok_post_certificate_b:
  "ids_ok w \<Longrightarrow>
   ids_ok (snd (post_certificate_b supabaseUrl e title provider date link file w))"
  using post_certificate_b_table[of supabaseUrl e title provider date link "file" w]
  by (auto intro: ids_ok_same ids_ok_insert)

lemma ids_ok_put_certificate:
  assumes "ids_ok w"
  shows "ids_ok (snd (put_certificate supabaseUrl e i name description category link file w))"
proof (cases "(file \<noteq> None \<and> upload_error e \<noteq> None) \<or> query_error e \<noteq> None")
  case True
  show ?thesis
    by (rule ids_ok_same[OF assms])
       (use True in \<open>simp_all add: put_certificate_table put_certificate_next_id\<close>)
next
  case False
  show ?thesis
    by (rule ids_ok_update[OF assms, where i = i and g = "\<lambda>r. r\<lparr>name_col := name, description_col := description,
                            image_col :=
                              (case file of
                                 None \<Rightarrow> image_col r
                               | Some f \<Rightarrow>
                                   Some (supabaseUrl @ ''/storage/v1/object/public/images/public/''
                                           @ originalname f)),
                            category_col := category, link_col := link\<rparr>"])
       (use False in \<open>auto simp add: put_certificate_table put_certificate_next_id\<close>)
qed

lemma ids_ok_put_certificate_b:
  assumes "ids_ok w"
  shows "ids_ok (snd (put_certificate_b supabaseUrl e i title provider date link file w))"
proof (cases "(file \<noteq> None \<and> upload_error e \<noteq> None) \<or> query_error e \<noteq> None")
  case True
  show ?thesis
    by (rule ids_ok_same[OF assms])
       (use True in \<open>simp_all add: put_certificate_b_table put_certificate_b_next_id\<close>)
next
  case False
  show ?thesis
    by (rule ids_ok_update[OF assms, where i = i and g = "\<lambda>r. r\<lparr>title_col := title, provider_col := provider, date_col := date,
                            link_col := link,
                            image_col :=
                              (case file of
                                 None \<Rightarrow> image_col r
                               | Some f \<Rightarrow>
                                   Some (supabaseUrl @ ''/storage/v1/object/public/images/public/''
                                           @ originalname f))\<rparr>"])
       (use False in \<open>auto simp add: put_certificate_b_table put_certificate_b_next_id\<close>)
qed

lemma ids_ok_read_only:
  "ids_ok w \<Longrightarrow> ids_ok (snd (get_root w))"
  "ids_ok w \<Longrightarrow> ids_ok (snd (get_certificates e w))"
  "ids_ok w \<Longrightarrow> ids_ok (snd (get_certificate e i w))"
  "ids_ok wb \<Longrightarrow> ids_ok (snd (get_certificates_provider e p wb))"
  "ids_ok wb \<Longrightarrow> ids_ok (snd (get_certificates_oldest e wb))"
  "ids_ok wb \<Longrightarrow> ids_ok (snd (get_certificates_newest e wb))"
  by (auto simp: unfold_all split: option.splits elim: ids_ok_same)

lemma ids_ok_delete_certificate: "ids_ok w \<Longrightarrow> ids_ok (snd (delete_certificate e i w))"
  by (auto simp: unfold_all split: option.splits elim: ids_ok_same ids_ok_delete)

lemma ids_ok_app: "ids_ok w \<Longrightarrow> ids_ok (snd (app supabaseUrl e req w))"
  by (cases req)
     (simp_all add: ids_ok_post_certificate ids_ok_put_certificate ids_ok_read_only
        ids_ok_delete_certificate)

lemma ids_ok_app_b: "ids_ok w \<Longrightarrow> ids_ok (snd (app_b supabaseUrl e req w))"
  by (cases req)
     (simp_all add: ids_ok_post_certificate_b ids_ok_put_certificate_b ids_ok_read_only
        ids_ok_delete_certificate)

lemma ids_ok_serve: "ids_ok w \<Longrightarrow> ids_ok (serve supabaseUrl steps w)"
  by (induction supabaseUrl steps w rule: serve.induct) (simp_all add: ids_ok_app)

lemma ids_ok_serve_b: "ids_ok w \<Longrightarrow> ids_ok (serve_b supabaseUrl steps w)"
  by (induction supabaseUrl steps w rule: serve_b.induct) (simp_all add: ids_ok_app_b)

lemma served_ids_distinct:
  "distinct (map id_col (certificates (serve supabaseUrl steps empty_world)))"
  "distinct (map id_col (certificates (serve_b supabaseUrl steps_b empty_world)))"
proof -
  have "ids_ok (empty_world :: certificate world)" and "ids_ok (empty_world :: certificate_b world)"
    by (simp_all add: ids_ok_def empty_world_def)
  then have "ids_ok (serve supabaseUrl steps empty_world)"
    and "ids_ok (serve_b supabaseUrl steps_b empty_world)"
    by (simp_all add: ids_ok_serve ids_ok_serve_b)
  then show "distinct (map id_col (certificates (serve supabaseUrl steps empty_world)))"
    and "distinct (map id_col (certificates (serve_b supabaseUrl steps_b empty_world)))"
    by (simp_all add: ids_ok_def)
qed

subsection \<open>Delete\<close>

lemma same_id_same_row:
  assumes "distinct (map id_col xs)" and "r \<in> set xs" and "x \<in> set xs"
  shows "id_col x = id_col r \<longleftrightarrow> x = r"
proof -
  from assms(1) have "inj_on id_col (set xs)" by (simp add: distinct_map)
  with assms(2,3) show ?thesis by (auto dest: inj_onD)
qed

lemma filter_other_ids_remove1:
  assumes "distinct (map id_col xs)" and "r \<in> set xs"
  shows "filter (\<lambda>x. id_col x \<noteq> id_col r) xs = remove1 r xs"
proof -
  from assms(1) have d: "distinct xs" by (simp add: distinct_map)
  have "filter (\<lambda>x. id_col x \<noteq> id_col r) xs = filter (\<lambda>x. r \<noteq> x) xs"
    using same_id_same_row[OF assms] by (intro filter_cong) auto
  also have "\<dots> = removeAll r xs" by (simp add: removeAll_filter_not_eq)
  also have "\<dots> = remove1 r xs" using d by (simp add: distinct_remove1_removeAll)
  finally show ?thesis .
qed

lemma filter_this_id_single:
  assumes "distinct (map id_col xs)" and "r \<in> set xs"
  shows "filter (\<lambda>x. id_col x = id_col r) xs = [r]"
proof -
  from assms(1) have d: "distinct xs" by (simp add: distinct_map)
  have "filter (\<lambda>x. id_col x = id_col r) xs = filter (\<lambda>x. x = r) xs"
    using same_id_same_row[OF assms] by (intro filter_cong) auto
  also have "\<dots> = [r]" using d assms(2)
    by (induction xs) (auto simp: filter_empty_conv)
  finally show ?thesis .
qed

text \<open>
  C8. In a table whose identifiers are pairwise different (as they are in every table
  the handlers build), for a row \<open>r\<close> of the table with the requested identifier, and
  when the statement reports no error: \<^verbatim>\<open>DELETE /certificate/:id\<close> answers 200 with
  \<open>r\<close>; the table afterwards is the table before with \<open>r\<close> removed, every other
  row in place and unchanged; and a \<^verbatim>\<open>GET /certificate/:id\<close> on the same identifier
  afterwards (its statement reporting no error) answers 404.
\<close>

theorem delete_removes_exactly_the_row:
  assumes "distinct (map id_col (certificates w))"
    and "r \<in> set (certificates w)" and "id_col r = i"
    and "query_error e = None" and "query_error e2 = None"
  shows
    "(case delete_certificate e i w of
        (res, w') \<Rightarrow>
          status res = 200 \<and> json res = Row r \<and>
          certificates w' = remove1 r (certificates w) \<and>
          certificates w' = filter (\<lambda>x. id_col x \<noteq> i) (certificates w) \<and>
          r \<notin> set (certificates w') \<and>
          images w' = images w \<and>
          fst (get_certificate e2 i w') = respond 404 (Error ''Certificate not found''))"
proof -
  have sel: "filter (\<lambda>x. id_col x = i) (certificates w) = [r]"
    using assms(1-3) filter_this_id_single[of "certificates w" r] by simp
  have del: "filter (\<lambda>x. id_col x \<noteq> i) (certificates w) = remove1 r (certificates w)"
    using assms(1-3) filter_other_ids_remove1[of "certificates w" r] by simp
  let ?w' = "w\<lparr>certificates := filter (\<lambda>x. id_col x \<noteq> i) (certificates w),
                calls := calls w @ [Query (DELETE_WHERE_ID_RETURNING i)]\<rparr>"
  have get: "fst (get_certificate e2 i ?w') = respond 404 (Error ''Certificate not found'')"
    by (rule get_certificate_not_found[OF assms(5)]) simp
  have gone: "r \<notin> set (filter (\<lambda>x. id_col x \<noteq> i) (certificates w))"
    using assms(3) by simp
  show ?thesis
    using get gone
    by (simp add: delete_certificate_ok[OF assms(4)] sel del[symmetric] respond_first_def
        respond_def)
qed

theorem delete_removes_exactly_the_row_witness:
  "distinct (map id_col (certificates table_a)) \<and>
   json (fst (delete_certificate env_ok 1 table_a)) = Row old_row \<and>
   status (fst (delete_certificate env_ok 1 table_a)) = 200 \<and>
   certificates (snd (delete_certificate env_ok 1 table_a)) = [other_row] \<and>
   status (fst (get_certificate env_ok 1 (snd (delete_certificate env_ok 1 table_a)))) = 404"
  using delete_removes_exactly_the_row
    [where w = table_a and r = old_row and i = 1 and e = env_ok and ?e2.0 = env_ok]
  by (simp add: example_defs case_prod_beta respond_def)

subsection \<open>Listings by date\<close>

text \<open>The order \<^verbatim>\<open>ORDER BY date\<close> sorts by: dates by their text, NULL after every date.\<close>

lemma date_key_le:
  "date_key a \<le> date_key b \<longleftrightarrow>
     (case date_col b of
        None \<Rightarrow> True
      | Some y \<Rightarrow> (case date_col a of None \<Rightarrow> False | Some x \<Rightarrow> x \<le> y))"
  by (auto simp: date_key_def less_eq_prod_def split: option.splits)

text \<open>
  C9. In the second application, when the statement reports no error:
  \<^verbatim>\<open>GET /certificates/oldest\<close> answers 200 with all rows of the table (each as often
  as it is in the table) in ascending order of \<^verbatim>\<open>date\<close>, and
  \<^verbatim>\<open>GET /certificates/newest\<close> answers 200 with all rows in descending order of
  \<^verbatim>\<open>date\<close>; neither changes the table. The order of dates is \<open>date_key\<close>'s, see
  \<open>date_key_le\<close>.
\<close>

theorem listings_sorted_by_date:
  assumes "query_error e = None"
  shows
    "(case get_certificates_oldest e w of
        (res, w') \<Rightarrow>
          status res = 200 \<and> certificates w' = certificates w \<and>
          (\<exists>rs. json res = Rows rs \<and> mset rs = mset (certificates w) \<and>
             sorted_wrt (\<lambda>a b. date_key a \<le> date_key b) rs)) \<and>
     (case get_certificates_newest e w of
        (res, w') \<Rightarrow>
          status res = 200 \<and> certificates w' = certificates w \<and>
          (\<exists>rs. json res = Rows rs \<and> mset rs = mset (certificates w) \<and>
             sorted_wrt (\<lambda>a b. date_key b \<le> date_key a) rs))"
proof -
  let ?rs = "sort_key date_key (certificates w)"
  have asc: "sorted_wrt (\<lambda>a b. date_key a \<le> date_key b) ?rs"
    using sorted_sort_key[of date_key "certificates w"] by (simp add: sorted_map)
  have "sorted_wrt (\<lambda>a b. date_key b \<le> date_key a) (rev ?rs)"
    using asc by (simp add: sorted_wrt_rev)
  with asc show ?thesis
    using assms
    by (simp add: get_certificates_oldest_def get_certificates_newest_def pool_query_def
        select_order_by_date_asc_def select_order_by_date_desc_def respond_def Let_def)
qed

theorem listings_sorted_by_date_witness:
  "query_error env_ok = None \<and>
   certificates table_b = [row_2022, row_2021] \<and>
   date_col row_2021 = Some ''2021-01-01'' \<and> date_col row_2022 = Some ''2022-01-01'' \<and>
   json (fst (get_certificates_oldest env_ok table_b)) = Rows [row_2021, row_2022] \<and>
   json (fst (get_certificates_newest env_ok table_b)) = Rows [row_2022, row_2021] \<and>
   status (fst (get_certificates_oldest env_ok table_b)) = 200 \<and>
   status (fst (get_certificates_newest env_ok table_b)) = 200"
  using listings_sorted_by_date[where e = env_ok and w = table_b]
  by (simp add: example_defs case_prod_beta get_certificates_oldest_def
      get_certificates_newest_def pool_query_def select_order_by_date_asc_def
      select_order_by_date_desc_def respond_def date_key_def)

end
